theory Spec2Isabelle
  imports Main "HOL-Library.Word" "HOL-Library.Sublist"
begin

section \<open>Values exchanged with the collaborators\<close>

text \<open>
  The transaction wrapper of \<^verbatim>\<open>txn.go\<close> talks to three collaborators that live outside
  the file: the mongo client (\<^verbatim>\<open>m.m.StartSession\<close>), the session it hands out
  (\<^verbatim>\<open>StartTransaction\<close>, \<^verbatim>\<open>CommitTransaction\<close>, \<^verbatim>\<open>AbortTransaction\<close>, \<^verbatim>\<open>EndSession\<close>)
  and the store's own \<^verbatim>\<open>get/has/getSize/query/delete/put\<close>. Their values are kept
  opaque: a key is its string, a session is the identity of the handle, a
  \<^verbatim>\<open>time.Duration\<close> is its number of nanoseconds (the file never computes with one).
\<close>

type_synonym key = string
type_synonym bytes = "8 word list"
type_synonym duration = int
type_synonym session = nat
type_synonym query = string
type_synonym results = "(key \<times> bytes) list"

text \<open>
  Contexts are kept symbolic, so that a call records which context it was given:
  \<^verbatim>\<open>context.Background()\<close>, a context supplied by the caller, \<^verbatim>\<open>context.WithTimeout\<close>
  of a parent, and \<^verbatim>\<open>mongo.NewSessionContext\<close> of a parent and a session.
\<close>

datatype gocontext =
    Background
  | Caller nat
  | WithTimeout gocontext duration
  | NewSessionContext gocontext session

text \<open>
  \<^verbatim>\<open>dsextensions.QueryExt\<close> is declared in another package; the file only names its
  \<^verbatim>\<open>Query\<close> field, and the composite literal \<^verbatim>\<open>QueryExt{Query: q}\<close> leaves the
  remaining field at its zero value.
\<close>

datatype QueryExt = QueryExt (Query: query) (SeekPrefix: string)

text \<open>
  Error values. \<^verbatim>\<open>ErrTxnFinalized\<close> is the variable declared at the top of the file,
  \<^verbatim>\<open>ErrClosed\<close> the store's variable declared beside \<^verbatim>\<open>MongoDS\<close>; every other
  error is known by its message. The session and the client report an error through
  its \<^verbatim>\<open>Error()\<close> text, the only thing the file reads from it (in a \<^verbatim>\<open>%s\<close>).
  \<open>errorString\<close> is the error of \<^verbatim>\<open>errors.New\<close>, which is also what \<^verbatim>\<open>fmt.Errorf\<close>
  returns for a format without \<^verbatim>\<open>%w\<close>; \<open>wrapError\<close> is what it returns for a format
  with \<^verbatim>\<open>%w\<close>, the only one of the four with an \<^verbatim>\<open>Unwrap\<close> method. The store may
  answer with any of them.
\<close>

datatype error = ErrTxnFinalized | ErrClosed | errorString string | wrapError string error

text \<open>\<^verbatim>\<open>errors.Unwrap\<close>: the wrapped error, or nothing (\<^verbatim>\<open>nil\<close>).\<close>

fun Unwrap :: "error \<Rightarrow> error option" where
  "Unwrap (wrapError msg err) = Some err"
| "Unwrap ErrTxnFinalized = None"
| "Unwrap ErrClosed = None"
| "Unwrap (errorString msg) = None"

text \<open>
  \<^verbatim>\<open>fmt.Errorf(msg + "%s", err)\<close>, the only way the file calls it: the text of the
  cause is appended to the message.
\<close>

definition Errorf :: "string \<Rightarrow> string \<Rightarrow> error" where
  "Errorf msg cause = errorString (msg @ cause)"

section \<open>Remote calls and the collaborators' answers\<close>

datatype call =
    StartSession_call
  | StartTransaction_call session
  | CommitTransaction_call session gocontext
  | AbortTransaction_call session gocontext
  | EndSession_call session gocontext
  | get_call gocontext key
  | has_call gocontext key
  | getSize_call gocontext key
  | query_call gocontext QueryExt
  | delete_call gocontext key
  | put_call gocontext key bytes

text \<open>
  The world outside the wrapper: the calls made so far, in order, and the lines
  written with \<^verbatim>\<open>log.Errorf\<close>.
\<close>

record world =
  calls :: "call list"
  logged :: "string list"

text \<open>
  The collaborators are parameters: each answers from the calls made before and the
  arguments of this one. \<^verbatim>\<open>EndSession\<close> returns nothing in the driver, so it has no
  answer here.
\<close>

record collaborators =
  StartSession :: "call list \<Rightarrow> string + session"
  StartTransaction :: "call list \<Rightarrow> session \<Rightarrow> string option"
  CommitTransaction :: "call list \<Rightarrow> session \<Rightarrow> gocontext \<Rightarrow> string option"
  AbortTransaction :: "call list \<Rightarrow> session \<Rightarrow> gocontext \<Rightarrow> string option"
  get :: "call list \<Rightarrow> gocontext \<Rightarrow> key \<Rightarrow> error + bytes"
  has :: "call list \<Rightarrow> gocontext \<Rightarrow> key \<Rightarrow> error + bool"
  getSize :: "call list \<Rightarrow> gocontext \<Rightarrow> key \<Rightarrow> error + int"
  query :: "call list \<Rightarrow> gocontext \<Rightarrow> QueryExt \<Rightarrow> error + results"
  delete :: "call list \<Rightarrow> gocontext \<Rightarrow> key \<Rightarrow> error option"
  put :: "call list \<Rightarrow> gocontext \<Rightarrow> key \<Rightarrow> bytes \<Rightarrow> error option"

definition remote :: "call \<Rightarrow> world \<Rightarrow> world" where
  "remote c w = w\<lparr>calls := calls w @ [c]\<rparr>"

definition Errorf_log :: "string \<Rightarrow> string \<Rightarrow> world \<Rightarrow> world" where
  "Errorf_log msg cause w = w\<lparr>logged := logged w @ [msg @ cause]\<rparr>"

section \<open>The store and the transaction wrapper\<close>

text \<open>
  The fields of \<^verbatim>\<open>MongoDS\<close> that the file reads. The two locks are left out: every
  method of the wrapper takes \<^verbatim>\<open>t.lock\<close> on entry and releases it on return, so the
  operations below are whole calls made one after the other.
\<close>

record MongoDS =
  closed :: bool
  txnTimeout :: duration
  opTimeout :: duration

record mongoTxn =
  finalized :: bool
  m :: MongoDS
  session :: session
  ctx :: gocontext

subsection \<open>Creation\<close>

definition newTransaction ::
  "collaborators \<Rightarrow> MongoDS \<Rightarrow> bool \<Rightarrow> world \<Rightarrow> (error + mongoTxn) \<times> world" where
  "newTransaction e store readOnly w =
     (if closed store then (Inl ErrClosed, w)
      else
        (case StartSession e (calls w) of
           Inl err \<Rightarrow> (Inl (Errorf ''starting mongo session: '' err), remote StartSession_call w)
         | Inr s \<Rightarrow>
             (let w1 = remote StartSession_call w in
              (case StartTransaction e (calls w1) s of
                 Some err \<Rightarrow>
                   (Inl (Errorf ''starting session txn: '' err), remote (StartTransaction_call s) w1)
               | None \<Rightarrow>
                   (Inr \<lparr>finalized = False, m = store, session = s,
                         ctx = NewSessionContext Background s\<rparr>,
                    remote (StartTransaction_call s) w1)))))"

definition NewTransaction ::
  "collaborators \<Rightarrow> MongoDS \<Rightarrow> gocontext \<Rightarrow> bool \<Rightarrow> world \<Rightarrow> (error + mongoTxn) \<times> world" where
  "NewTransaction e store c readOnly w = newTransaction e store readOnly w"

definition NewTransactionExtended ::
  "collaborators \<Rightarrow> MongoDS \<Rightarrow> bool \<Rightarrow> world \<Rightarrow> (error + mongoTxn) \<times> world" where
  "NewTransactionExtended e store readOnly w = newTransaction e store readOnly w"

subsection \<open>Commit and Discard\<close>

definition Commit ::
  "collaborators \<Rightarrow> gocontext \<Rightarrow> mongoTxn \<Rightarrow> world \<Rightarrow> error option \<times> mongoTxn \<times> world" where
  "Commit e c t w =
     (if finalized t then (Some ErrTxnFinalized, t, w)
      else
        (let ctx1 = WithTimeout c (txnTimeout (m t)) in
         (case CommitTransaction e (calls w) (session t) ctx1 of
            Some err \<Rightarrow>
              (Some (Errorf ''commiting session txn: '' err), t,
               remote (CommitTransaction_call (session t) ctx1) w)
          | None \<Rightarrow>
              (let w1 = remote (CommitTransaction_call (session t) ctx1) w;
                   t1 = t\<lparr>finalized := True\<rparr>;
                   ctx2 = WithTimeout c (opTimeout (m t1))
               in (None, t1, remote (EndSession_call (session t1) ctx2) w1)))))"

definition Discard :: "collaborators \<Rightarrow> gocontext \<Rightarrow> mongoTxn \<Rightarrow> world \<Rightarrow> mongoTxn \<times> world" where
  "Discard e c t w =
     (if finalized t then (t, w)
      else
        (let ctx1 = WithTimeout c (txnTimeout (m t));
             w1 = remote (AbortTransaction_call (session t) ctx1) w;
             w2 = (case AbortTransaction e (calls w) (session t) ctx1 of
                     Some err \<Rightarrow> Errorf_log ''aborting transaction: '' err w1
                   | None \<Rightarrow> w1);
             ctx2 = WithTimeout c (opTimeout (m t))
         in (t, remote (EndSession_call (session t) ctx2) w2)))"

subsection \<open>Reads, queries and writes\<close>

definition Get ::
  "collaborators \<Rightarrow> gocontext \<Rightarrow> key \<Rightarrow> mongoTxn \<Rightarrow> world \<Rightarrow> (error + bytes) \<times> mongoTxn \<times> world" where
  "Get e c k t w =
     (if finalized t then (Inl ErrTxnFinalized, t, w)
      else (get e (calls w) c k, t, remote (get_call c k) w))"

definition Has ::
  "collaborators \<Rightarrow> gocontext \<Rightarrow> key \<Rightarrow> mongoTxn \<Rightarrow> world \<Rightarrow> (error + bool) \<times> mongoTxn \<times> world" where
  "Has e c k t w =
     (if finalized t then (Inl ErrTxnFinalized, t, w)
      else (has e (calls w) c k, t, remote (has_call c k) w))"

definition GetSize ::
  "collaborators \<Rightarrow> gocontext \<Rightarrow> key \<Rightarrow> mongoTxn \<Rightarrow> world \<Rightarrow> (error + int) \<times> mongoTxn \<times> world" where
  "GetSize e c k t w =
     (if finalized t then (Inl ErrTxnFinalized, t, w)
      else (getSize e (calls w) c k, t, remote (getSize_call c k) w))"

text \<open>
  \<^verbatim>\<open>Query\<close> of the wrapper is named \<open>Query_txn\<close> here: \<open>Query\<close> is the field of
  \<^verbatim>\<open>QueryExt\<close>.
\<close>

definition Query_txn ::
  "collaborators \<Rightarrow> gocontext \<Rightarrow> query \<Rightarrow> mongoTxn \<Rightarrow> world \<Rightarrow> (error + results) \<times> mongoTxn \<times> world" where
  "Query_txn e c q t w =
     (if finalized t then (Inl ErrTxnFinalized, t, w)
      else
        (let qe = QueryExt q [] in
         (query e (calls w) c qe, t, remote (query_call c qe) w)))"

definition QueryExtended ::
  "collaborators \<Rightarrow> QueryExt \<Rightarrow> mongoTxn \<Rightarrow> world \<Rightarrow> (error + results) \<times> mongoTxn \<times> world" where
  "QueryExtended e q t w =
     (if finalized t then (Inl ErrTxnFinalized, t, w)
      else (query e (calls w) (ctx t) q, t, remote (query_call (ctx t) q) w))"

definition Delete ::
  "collaborators \<Rightarrow> gocontext \<Rightarrow> key \<Rightarrow> mongoTxn \<Rightarrow> world \<Rightarrow> error option \<times> mongoTxn \<times> world" where
  "Delete e c k t w =
     (if finalized t then (Some ErrClosed, t, w)
      else (delete e (calls w) c k, t, remote (delete_call c k) w))"

definition Put ::
  "collaborators \<Rightarrow> gocontext \<Rightarrow> key \<Rightarrow> bytes \<Rightarrow> mongoTxn \<Rightarrow> world \<Rightarrow> error option \<times> mongoTxn \<times> world" where
  "Put e c k v t w =
     (if finalized t then (Some ErrClosed, t, w)
      else (put e (calls w) c k v, t, remote (put_call c k v) w))"

section \<open>Sequences of operations on one wrapper\<close>

text \<open>
  One caller issuing operations one after the other on the same wrapper: each
  operation runs on the wrapper and the world the previous one left.
\<close>

datatype operation =
    Commit_op gocontext
  | Discard_op gocontext
  | Get_op gocontext key
  | Has_op gocontext key
  | GetSize_op gocontext key
  | Query_op gocontext query
  | QueryExtended_op QueryExt
  | Delete_op gocontext key
  | Put_op gocontext key bytes

fun step :: "collaborators \<Rightarrow> operation \<Rightarrow> mongoTxn \<times> world \<Rightarrow> mongoTxn \<times> world" where
  "step e (Commit_op c) (t, w) = snd (Commit e c t w)"
| "step e (Discard_op c) (t, w) = Discard e c t w"
| "step e (Get_op c k) (t, w) = snd (Get e c k t w)"
| "step e (Has_op c k) (t, w) = snd (Has e c k t w)"
| "step e (GetSize_op c k) (t, w) = snd (GetSize e c k t w)"
| "step e (Query_op c q) (t, w) = snd (Query_txn e c q t w)"
| "step e (QueryExtended_op q) (t, w) = snd (QueryExtended e q t w)"
| "step e (Delete_op c k) (t, w) = snd (Delete e c k t w)"
| "step e (Put_op c k v) (t, w) = snd (Put e c k v t w)"

fun run :: "collaborators \<Rightarrow> operation list \<Rightarrow> mongoTxn \<times> world \<Rightarrow> mongoTxn \<times> world" where
  "run e [] s = s"
| "run e (x # xs) s = run e xs (step e x s)"

text \<open>Whether a trace holds an \<^verbatim>\<open>EndSession\<close> call on the given session.\<close>

fun is_EndSession :: "session \<Rightarrow> call \<Rightarrow> bool" where
  "is_EndSession s (EndSession_call s' c) = (s' = s)"
| "is_EndSession s StartSession_call = False"
| "is_EndSession s (StartTransaction_call s') = False"
| "is_EndSession s (CommitTransaction_call s' c) = False"
| "is_EndSession s (AbortTransaction_call s' c) = False"
| "is_EndSession s (get_call c k) = False"
| "is_EndSession s (has_call c k) = False"
| "is_EndSession s (getSize_call c k) = False"
| "is_EndSession s (query_call c q) = False"
| "is_EndSession s (delete_call c k) = False"
| "is_EndSession s (put_call c k v) = False"

definition ends_session :: "session \<Rightarrow> call list \<Rightarrow> bool" where
  "ends_session s cs = (filter (is_EndSession s) cs \<noteq> [])"

section \<open>Concrete stores, wrappers and collaborators\<close>

definition store0 :: MongoDS where
  "store0 = \<lparr>closed = False, txnTimeout = 30, opTimeout = 10\<rparr>"

definition store_closed :: MongoDS where
  "store_closed = \<lparr>closed = True, txnTimeout = 30, opTimeout = 10\<rparr>"

definition w0 :: world where
  "w0 = \<lparr>calls = [], logged = []\<rparr>"

definition t0 :: mongoTxn where
  "t0 = \<lparr>finalized = False, m = store0, session = 5, ctx = NewSessionContext Background 5\<rparr>"

text \<open>Collaborators whose every call succeeds; the store holds \<^verbatim>\<open>"1"\<close> under each key.\<close>

definition env_ok :: collaborators where
  "env_ok =
     \<lparr>StartSession = (\<lambda>h. Inr 5),
      StartTransaction = (\<lambda>h s. None),
      CommitTransaction = (\<lambda>h s c. None),
      AbortTransaction = (\<lambda>h s c. None),
      get = (\<lambda>h c k. Inr [49]),
      has = (\<lambda>h c k. Inr True),
      getSize = (\<lambda>h c k. Inr 1),
      query = (\<lambda>h c q. Inr []),
      delete = (\<lambda>h c k. None),
      put = (\<lambda>h c k v. None)\<rparr>"

text \<open>The first commit on an untouched world times out, a later one succeeds.\<close>

definition env_commit_fails_once :: collaborators where
  "env_commit_fails_once =
     env_ok\<lparr>CommitTransaction :=
       (\<lambda>h s c. if h = [] then Some ''context deadline exceeded'' else None)\<rparr>"

text \<open>Every commit is rejected by the server.\<close>

definition env_commit_rejected :: collaborators where
  "env_commit_rejected = env_ok\<lparr>CommitTransaction := (\<lambda>h s c. Some ''write conflict'')\<rparr>"

definition env_abort_fails :: collaborators where
  "env_abort_fails = env_ok\<lparr>AbortTransaction := (\<lambda>h s c. Some ''no transaction started'')\<rparr>"

definition env_session_fails :: collaborators where
  "env_session_fails = env_ok\<lparr>StartSession := (\<lambda>h. Inl ''client is disconnected'')\<rparr>"

definition env_txn_start_fails :: collaborators where
  "env_txn_start_fails = env_ok\<lparr>StartTransaction := (\<lambda>h s. Some ''transaction already in progress'')\<rparr>"

lemmas fixtures = store0_def store_closed_def w0_def t0_def env_ok_def env_commit_fails_once_def
  env_abort_fails_def env_session_fails_def env_txn_start_fails_def env_commit_rejected_def

section \<open>Discard\<close>

text \<open>
  C1. The specification has \<^verbatim>\<open>Discard\<close> set \<^verbatim>\<open>finalized\<close> once the abort attempt is
  over, so that every later operation is rejected without a remote call. The code of
  \<^verbatim>\<open>Discard\<close> never writes the field (\<^verbatim>\<open>Commit\<close> does, between its two remote
  calls): the wrapper that \<^verbatim>\<open>Discard\<close> leaves is the one it was given. On an active
  wrapper, whether the abort succeeds or fails, the wrapper is still not finalized
  afterwards; a following \<^verbatim>\<open>Get\<close> reaches the store and returns its value, and a
  following \<^verbatim>\<open>Commit\<close> calls the session again.
\<close>

theorem Discard_then_Get_reaches_delegate:
  "fst (Discard e c t w) = t
   \<and> Discard env_ok (Caller 1) t0 w0 =
     (t0, \<lparr>calls = [AbortTransaction_call 5 (WithTimeout (Caller 1) 30),
                    EndSession_call 5 (WithTimeout (Caller 1) 10)], logged = []\<rparr>)
   \<and> \<not> finalized (fst (Discard env_ok (Caller 1) t0 w0))
   \<and> Get env_ok (Caller 2) ''a'' (fst (Discard env_ok (Caller 1) t0 w0))
        (snd (Discard env_ok (Caller 1) t0 w0)) =
     (Inr [49], t0,
      \<lparr>calls = [AbortTransaction_call 5 (WithTimeout (Caller 1) 30),
                EndSession_call 5 (WithTimeout (Caller 1) 10),
                get_call (Caller 2) ''a''], logged = []\<rparr>)
   \<and> \<not> finalized (fst (Discard env_abort_fails (Caller 1) t0 w0))
   \<and> fst (Commit env_abort_fails (Caller 2) (fst (Discard env_abort_fails (Caller 1) t0 w0))
        (snd (Discard env_abort_fails (Caller 1) t0 w0))) = None"
  by (simp add: Discard_def Get_def Commit_def remote_def Errorf_log_def Let_def fixtures)

text \<open>
  C7. The specification has a second \<^verbatim>\<open>Discard\<close> be a no-op. Since the first one
  leaves \<^verbatim>\<open>finalized\<close> false, the second one passes the guard and calls
  \<^verbatim>\<open>AbortTransaction\<close> and \<^verbatim>\<open>EndSession\<close> on the session again.
\<close>

theorem Discard_twice_repeats_remote_calls:
  "snd (Discard env_ok (Caller 2) (fst (Discard env_ok (Caller 1) t0 w0))
         (snd (Discard env_ok (Caller 1) t0 w0))) =
     \<lparr>calls = [AbortTransaction_call 5 (WithTimeout (Caller 1) 30),
               EndSession_call 5 (WithTimeout (Caller 1) 10),
               AbortTransaction_call 5 (WithTimeout (Caller 2) 30),
               EndSession_call 5 (WithTimeout (Caller 2) 10)], logged = []\<rparr>"
  by (simp add: Discard_def remote_def Errorf_log_def Let_def fixtures)

section \<open>Operations after a successful Commit\<close>

text \<open>
  C3. After a successful \<^verbatim>\<open>Commit\<close> the specification has every operation return the
  one already-finalized error. \<^verbatim>\<open>Get\<close> returns \<^verbatim>\<open>ErrTxnFinalized\<close>, and so do
  \<^verbatim>\<open>Has\<close>, \<^verbatim>\<open>GetSize\<close>, \<^verbatim>\<open>Query\<close> and \<^verbatim>\<open>Commit\<close>; \<^verbatim>\<open>Put\<close> and \<^verbatim>\<open>Delete\<close>
  return the store's \<^verbatim>\<open>ErrClosed\<close>, a different error value.
\<close>

theorem Put_Delete_after_Commit_return_ErrClosed:
  "fst (Commit env_ok (Caller 1) t0 w0) = None
   \<and> fst (Put env_ok (Caller 2) ''a'' [49] (fst (snd (Commit env_ok (Caller 1) t0 w0)))
        (snd (snd (Commit env_ok (Caller 1) t0 w0)))) = Some ErrClosed
   \<and> fst (Delete env_ok (Caller 2) ''a'' (fst (snd (Commit env_ok (Caller 1) t0 w0)))
        (snd (snd (Commit env_ok (Caller 1) t0 w0)))) = Some ErrClosed
   \<and> fst (Get env_ok (Caller 2) ''a'' (fst (snd (Commit env_ok (Caller 1) t0 w0)))
        (snd (snd (Commit env_ok (Caller 1) t0 w0)))) = Inl ErrTxnFinalized
   \<and> ErrClosed \<noteq> ErrTxnFinalized"
  by (simp add: Commit_def Put_def Delete_def Get_def remote_def Let_def fixtures)

section \<open>The context handed to the store\<close>

text \<open>
  C2. The specification has \<^verbatim>\<open>Get\<close>, \<^verbatim>\<open>Has\<close>, \<^verbatim>\<open>GetSize\<close>, \<^verbatim>\<open>Put\<close> and \<^verbatim>\<open>Delete\<close>
  reach the store with the wrapper's own session context, so that they run inside the
  transaction. Creation builds that context (\<^verbatim>\<open>mongo.NewSessionContext\<close>) and
  \<^verbatim>\<open>QueryExtended\<close> passes it on, but the five methods pass the context of their
  caller: on any wrapper that is not finalized the call they make carries the caller's
  context, whatever it is. On \<open>t0\<close>, called with a context that is not the wrapper's,
  \<^verbatim>\<open>Get\<close> and \<^verbatim>\<open>Put\<close> reach the store outside the session.
\<close>

theorem CRUD_calls_carry_caller_context:
  "snd (snd (Get e c k (t\<lparr>finalized := False\<rparr>) w)) = remote (get_call c k) w
   \<and> snd (snd (Has e c k (t\<lparr>finalized := False\<rparr>) w)) = remote (has_call c k) w
   \<and> snd (snd (GetSize e c k (t\<lparr>finalized := False\<rparr>) w)) = remote (getSize_call c k) w
   \<and> snd (snd (Put e c k v (t\<lparr>finalized := False\<rparr>) w)) = remote (put_call c k v) w
   \<and> snd (snd (Delete e c k (t\<lparr>finalized := False\<rparr>) w)) = remote (delete_call c k) w
   \<and> snd (snd (QueryExtended e qe (t\<lparr>finalized := False\<rparr>) w)) = remote (query_call (ctx t) qe) w
   \<and> \<not> finalized t0
   \<and> ctx t0 = NewSessionContext Background 5
   \<and> Caller 1 \<noteq> ctx t0
   \<and> snd (snd (Get env_ok (Caller 1) ''a'' t0 w0)) \<noteq> remote (get_call (ctx t0) ''a'') w0
   \<and> snd (snd (Put env_ok (Caller 1) ''a'' [49] t0 w0)) \<noteq> remote (put_call (ctx t0) ''a'' [49]) w0
   \<and> snd (snd (Get env_ok (Caller 1) ''a'' t0 w0)) =
        \<lparr>calls = [get_call (Caller 1) ''a''], logged = []\<rparr>
   \<and> snd (snd (Put env_ok (Caller 1) ''a'' [49] t0 w0)) =
        \<lparr>calls = [put_call (Caller 1) ''a'' [49]], logged = []\<rparr>
   \<and> snd (snd (QueryExtended env_ok (QueryExt ''q'' []) t0 w0)) =
        \<lparr>calls = [query_call (NewSessionContext Background 5) (QueryExt ''q'' [])], logged = []\<rparr>"
  by (simp add: Get_def Has_def GetSize_def Put_def Delete_def QueryExtended_def remote_def fixtures)

section \<open>Commit\<close>

text \<open>
  C4, as the specification states it: when the remote commit fails, \<^verbatim>\<open>Commit\<close>
  returns an error wrapping the cause. It fails: the error returned for a commit that
  timed out is the one \<^verbatim>\<open>fmt.Errorf\<close> builds with \<^verbatim>\<open>%s\<close>; it carries the text of the
  cause and wraps nothing, \<^verbatim>\<open>errors.Unwrap\<close> of it is \<^verbatim>\<open>nil\<close>.
\<close>

theorem Commit_error_wraps_cause_counterexample:
  "fst (Commit env_commit_fails_once (Caller 1) t0 w0) =
     Some (errorString ''commiting session txn: context deadline exceeded'')
   \<and> (case fst (Commit env_commit_fails_once (Caller 1) t0 w0) of
         None \<Rightarrow> None
       | Some err \<Rightarrow> Unwrap err) = None"
  by (simp add: Commit_def remote_def Errorf_def Let_def fixtures)

text \<open>
  C4, amended. When the remote commit fails or times out on an active wrapper,
  \<^verbatim>\<open>Commit\<close> returns an error whose message is \<^verbatim>\<open>commiting session txn: \<close> followed by
  the text of the cause, and which wraps nothing; the wrapper is unchanged and still not
  finalized, and nothing is logged. The caller may go on with the same wrapper: a second
  \<^verbatim>\<open>Commit\<close> is not rejected as finalized, calls the session again, and succeeds and
  finalizes if that call succeeds; a \<^verbatim>\<open>Discard\<close> aborts and ends the session.
\<close>

theorem Commit_failure_leaves_wrapper_active:
  assumes "\<not> finalized t"
    and "CommitTransaction e (calls w) (session t) (WithTimeout c (txnTimeout (m t))) = Some cause"
  shows "Commit e c t w =
           (Some (errorString (''commiting session txn: '' @ cause)), t,
            remote (CommitTransaction_call (session t) (WithTimeout c (txnTimeout (m t)))) w)
       \<and> Unwrap (errorString (''commiting session txn: '' @ cause)) = None
       \<and> (let t1 = fst (snd (Commit e c t w)); w1 = snd (snd (Commit e c t w)) in
            t1 = t \<and> \<not> finalized t1 \<and> logged w1 = logged w
          \<and> fst (Commit e c' t1 w1) \<noteq> Some ErrTxnFinalized
          \<and> prefix (calls w1 @ [CommitTransaction_call (session t) (WithTimeout c' (txnTimeout (m t)))])
               (calls (snd (snd (Commit e c' t1 w1))))
          \<and> (CommitTransaction e (calls w1) (session t) (WithTimeout c' (txnTimeout (m t))) = None
               \<longrightarrow> fst (Commit e c' t1 w1) = None \<and> finalized (fst (snd (Commit e c' t1 w1))))
          \<and> calls (snd (Discard e c' t1 w1)) =
               calls w1 @ [AbortTransaction_call (session t) (WithTimeout c' (txnTimeout (m t))),
                           EndSession_call (session t) (WithTimeout c' (opTimeout (m t)))])"
  using assms
  by (auto simp add: Commit_def Discard_def remote_def Errorf_def Errorf_log_def Let_def
      split: option.splits)

text \<open>
  C4, amended, on \<open>t0\<close>: with a commit that times out once and succeeds when retried,
  and with a commit that the server rejects with another cause.
\<close>

theorem Commit_failure_leaves_wrapper_active_witness:
  "\<not> finalized t0
   \<and> CommitTransaction env_commit_fails_once (calls w0) (session t0)
       (WithTimeout (Caller 1) (txnTimeout (m t0))) = Some ''context deadline exceeded''
   \<and> Commit env_commit_fails_once (Caller 1) t0 w0 =
       (Some (errorString ''commiting session txn: context deadline exceeded''), t0,
        \<lparr>calls = [CommitTransaction_call 5 (WithTimeout (Caller 1) 30)], logged = []\<rparr>)
   \<and> Commit env_commit_fails_once (Caller 2) t0
        \<lparr>calls = [CommitTransaction_call 5 (WithTimeout (Caller 1) 30)], logged = []\<rparr> =
       (None, t0\<lparr>finalized := True\<rparr>,
        \<lparr>calls = [CommitTransaction_call 5 (WithTimeout (Caller 1) 30),
                  CommitTransaction_call 5 (WithTimeout (Caller 2) 30),
                  EndSession_call 5 (WithTimeout (Caller 2) 10)], logged = []\<rparr>)
   \<and> CommitTransaction env_commit_rejected (calls w0) (session t0)
       (WithTimeout (Caller 1) (txnTimeout (m t0))) = Some ''write conflict''
   \<and> Commit env_commit_rejected (Caller 1) t0 w0 =
       (Some (errorString ''commiting session txn: write conflict''), t0,
        \<lparr>calls = [CommitTransaction_call 5 (WithTimeout (Caller 1) 30)], logged = []\<rparr>)
   \<and> calls (snd (Discard env_commit_rejected (Caller 2) t0
        \<lparr>calls = [CommitTransaction_call 5 (WithTimeout (Caller 1) 30)], logged = []\<rparr>)) =
       [CommitTransaction_call 5 (WithTimeout (Caller 1) 30),
        AbortTransaction_call 5 (WithTimeout (Caller 2) 30),
        EndSession_call 5 (WithTimeout (Caller 2) 10)]"
proof -
  have h1: "\<not> finalized t0" by (simp add: t0_def)
  have h2: "CommitTransaction env_commit_fails_once (calls w0) (session t0)
       (WithTimeout (Caller 1) (txnTimeout (m t0))) = Some ''context deadline exceeded''"
    by (simp add: fixtures)
  have h3: "CommitTransaction env_commit_rejected (calls w0) (session t0)
       (WithTimeout (Caller 1) (txnTimeout (m t0))) = Some ''write conflict''"
    by (simp add: fixtures)
  from Commit_failure_leaves_wrapper_active [OF h1 h2, of "Caller 2"]
       Commit_failure_leaves_wrapper_active [OF h1 h3, of "Caller 2"] h1 h2 h3
  show ?thesis
    by (simp add: Commit_def Discard_def remote_def Errorf_def Errorf_log_def Let_def fixtures)
qed

text \<open>
  C6. When the remote commit succeeds on an active wrapper, \<^verbatim>\<open>Commit\<close> sets
  \<^verbatim>\<open>finalized\<close>, then calls \<^verbatim>\<open>EndSession\<close> with the caller's context bounded by the
  store's operation timeout, and returns no error. \<^verbatim>\<open>EndSession\<close> has no result, so
  whatever happens to it remotely, nothing of it reaches the caller.
\<close>

theorem Commit_success_finalizes_and_ends_session:
  assumes "\<not> finalized t"
    and "CommitTransaction e (calls w) (session t) (WithTimeout c (txnTimeout (m t))) = None"
  shows "Commit e c t w =
           (None, t\<lparr>finalized := True\<rparr>,
            w\<lparr>calls := calls w @
                 [CommitTransaction_call (session t) (WithTimeout c (txnTimeout (m t))),
                  EndSession_call (session t) (WithTimeout c (opTimeout (m t)))]\<rparr>)"
  using assms by (simp add: Commit_def remote_def Let_def)

text \<open>C6 on \<open>t0\<close>, with timeouts 30 (transaction) and 10 (operation).\<close>

theorem Commit_success_finalizes_and_ends_session_witness:
  "\<not> finalized t0
   \<and> CommitTransaction env_ok (calls w0) (session t0) (WithTimeout (Caller 1) (txnTimeout (m t0))) = None
   \<and> Commit env_ok (Caller 1) t0 w0 =
       (None, t0\<lparr>finalized := True\<rparr>,
        \<lparr>calls = [CommitTransaction_call 5 (WithTimeout (Caller 1) 30),
                  EndSession_call 5 (WithTimeout (Caller 1) 10)], logged = []\<rparr>)"
proof -
  have h1: "\<not> finalized t0" by (simp add: t0_def)
  have h2: "CommitTransaction env_ok (calls w0) (session t0)
      (WithTimeout (Caller 1) (txnTimeout (m t0))) = None"
    by (simp add: fixtures)
  from Commit_success_finalizes_and_ends_session [OF h1 h2] h1 h2
  show ?thesis by (simp add: fixtures)
qed

section \<open>Creation\<close>

text \<open>
  C5, as the specification states it: when starting the remote transaction fails, the
  session is ended. It fails: creation returns the transaction-start error after the
  two calls \<^verbatim>\<open>StartSession\<close> and \<^verbatim>\<open>StartTransaction\<close>, and no \<^verbatim>\<open>EndSession\<close> call
  is made on the session it obtained.
\<close>

theorem newTransaction_leaks_session_counterexample:
  "newTransaction env_txn_start_fails store0 False w0 =
     (Inl (errorString ''starting session txn: transaction already in progress''),
      \<lparr>calls = [StartSession_call, StartTransaction_call 5], logged = []\<rparr>)
   \<and> \<not> ends_session 5 (calls (snd (newTransaction env_txn_start_fails store0 False w0)))"
  by (simp add: newTransaction_def remote_def Errorf_def ends_session_def Let_def fixtures)

text \<open>
  C5, amended. Creation first checks that the store is not closed and fails with
  \<^verbatim>\<open>ErrClosed\<close>, without a remote call, if it is; it fails with a session-start error
  if \<^verbatim>\<open>StartSession\<close> fails; and if \<^verbatim>\<open>StartTransaction\<close> fails it fails with a
  transaction-start error, having made the \<^verbatim>\<open>StartSession\<close> and \<^verbatim>\<open>StartTransaction\<close>
  calls and no other: the session is not ended by the creation.
\<close>

theorem newTransaction_failures:
  "(closed store \<longrightarrow> newTransaction e store r w = (Inl ErrClosed, w))
   \<and> (\<not> closed store \<and> StartSession e (calls w) = Inl cause \<longrightarrow>
        newTransaction e store r w =
          (Inl (Errorf ''starting mongo session: '' cause), remote StartSession_call w))
   \<and> (\<not> closed store \<and> StartSession e (calls w) = Inr s
        \<and> StartTransaction e (calls w @ [StartSession_call]) s = Some cause \<longrightarrow>
        newTransaction e store r w =
          (Inl (Errorf ''starting session txn: '' cause),
           remote (StartTransaction_call s) (remote StartSession_call w))
        \<and> calls (snd (newTransaction e store r w)) =
            calls w @ [StartSession_call, StartTransaction_call s])"
  by (simp add: newTransaction_def remote_def Let_def)

text \<open>C5, amended, on a closed store, a failing client and a failing session.\<close>

theorem newTransaction_failures_witness:
  "closed store_closed
   \<and> newTransaction env_ok store_closed True w0 = (Inl ErrClosed, w0)
   \<and> \<not> closed store0
   \<and> StartSession env_session_fails (calls w0) = Inl ''client is disconnected''
   \<and> newTransaction env_session_fails store0 True w0 =
       (Inl (errorString ''starting mongo session: client is disconnected''),
        \<lparr>calls = [StartSession_call], logged = []\<rparr>)
   \<and> StartSession env_txn_start_fails (calls w0) = Inr 5
   \<and> StartTransaction env_txn_start_fails (calls w0 @ [StartSession_call]) 5 =
       Some ''transaction already in progress''
   \<and> newTransaction env_txn_start_fails store0 True w0 =
       (Inl (errorString ''starting session txn: transaction already in progress''),
        \<lparr>calls = [StartSession_call, StartTransaction_call 5], logged = []\<rparr>)"
proof -
  have a: "closed store_closed" by (simp add: fixtures)
  have b: "\<not> closed store0 \<and> StartSession env_session_fails (calls w0) = Inl ''client is disconnected''"
    by (simp add: fixtures)
  have c: "\<not> closed store0 \<and> StartSession env_txn_start_fails (calls w0) = Inr 5
     \<and> StartTransaction env_txn_start_fails (calls w0 @ [StartSession_call]) 5 =
       Some ''transaction already in progress''"
    by (simp add: fixtures)
  from newTransaction_failures [where store = store_closed and e = env_ok and r = True and w = w0]
       newTransaction_failures [where store = store0 and e = env_session_fails and r = True
         and w = w0 and cause = "''client is disconnected''"]
       newTransaction_failures [where store = store0 and e = env_txn_start_fails and r = True
         and w = w0 and s = 5 and cause = "''transaction already in progress''"]
       a b c
  show ?thesis
    by (simp add: remote_def Errorf_def w0_def)
qed

section \<open>The finalized flag\<close>

lemma step_writes_only_True:
  "fst (step e x (t, w)) = t \<or> fst (step e x (t, w)) = t\<lparr>finalized := True\<rparr>"
  by (cases x)
     (simp_all add: Commit_def Discard_def Get_def Has_def GetSize_def Query_txn_def
        QueryExtended_def Delete_def Put_def Let_def split: option.splits)

lemma step_keeps_finalized: "finalized (fst s) \<Longrightarrow> finalized (fst (step e x s))"
proof -
  assume f: "finalized (fst s)"
  obtain t w where s: "s = (t, w)" by (cases s)
  from step_writes_only_True [of e x t w] f s show ?thesis by auto
qed

lemma run_append: "run e (xs @ ys) s = run e ys (run e xs s)"
  by (induction xs arbitrary: s) simp_all

lemma run_keeps_finalized: "finalized (fst s) \<Longrightarrow> finalized (fst (run e xs s))"
  by (induction xs arbitrary: s) (simp_all add: step_keeps_finalized)

text \<open>
  C9. The flag is monotone. An operation leaves the wrapper as it was or writes
  \<^verbatim>\<open>True\<close> to \<^verbatim>\<open>finalized\<close> and nothing else; so a finalized wrapper stays finalized
  through one operation and through any sequence of operations, and a wrapper that some
  sequence has finalized is still finalized after any longer one.
\<close>

theorem finalized_is_monotone:
  "(fst (step e x (t, w)) = t \<or> fst (step e x (t, w)) = t\<lparr>finalized := True\<rparr>)
   \<and> (finalized t \<longrightarrow> finalized (fst (step e x (t, w))))
   \<and> (finalized t \<longrightarrow> finalized (fst (run e xs (t, w))))
   \<and> (finalized (fst (run e xs (t, w))) \<longrightarrow> finalized (fst (run e (xs @ ys) (t, w))))"
  using step_writes_only_True [of e x t w] step_keeps_finalized [of "(t, w)" e x]
    run_keeps_finalized [of "(t, w)" e xs]
    run_keeps_finalized [of "run e xs (t, w)" e ys]
  by (simp add: run_append)

text \<open>C9 on a finalized copy of \<open>t0\<close>, and on \<open>t0\<close> finalized by a commit.\<close>

theorem finalized_is_monotone_witness:
  "finalized (t0\<lparr>finalized := True\<rparr>)
   \<and> finalized (fst (step env_ok (Discard_op (Caller 1)) (t0\<lparr>finalized := True\<rparr>, w0)))
   \<and> finalized (fst (run env_ok [Get_op (Caller 1) ''a'', Discard_op (Caller 2), Commit_op (Caller 3)]
        (t0\<lparr>finalized := True\<rparr>, w0)))
   \<and> finalized (fst (run env_ok [Put_op (Caller 1) ''a'' [49], Commit_op (Caller 2)] (t0, w0)))
   \<and> finalized (fst (run env_ok ([Put_op (Caller 1) ''a'' [49], Commit_op (Caller 2)]
        @ [Discard_op (Caller 3), Delete_op (Caller 4) ''a'']) (t0, w0)))"
proof -
  have h: "finalized (t0\<lparr>finalized := True\<rparr>)" by simp
  have g: "finalized (fst (run env_ok [Put_op (Caller 1) ''a'' [49], Commit_op (Caller 2)] (t0, w0)))"
    by (simp add: Put_def Commit_def remote_def Let_def fixtures)
  from finalized_is_monotone [where e = env_ok and x = "Discard_op (Caller 1)"
         and t = "t0\<lparr>finalized := True\<rparr>" and w = w0
         and xs = "[Get_op (Caller 1) ''a'', Discard_op (Caller 2), Commit_op (Caller 3)]"]
       finalized_is_monotone [where e = env_ok and x = "Discard_op (Caller 1)" and t = t0 and w = w0
         and xs = "[Put_op (Caller 1) ''a'' [49], Commit_op (Caller 2)]"
         and ys = "[Discard_op (Caller 3), Delete_op (Caller 4) ''a'']"]
       h g
  show ?thesis by simp
qed

section \<open>Racing callers\<close>

text \<open>
  C8. Each method holds \<^verbatim>\<open>t.lock\<close> from entry to return, so what concurrent callers
  can produce is a serial order of whole operations, and every serial order is one of
  their schedules. The specification has any such order finalize at most once, and has
  every \<^verbatim>\<open>Put\<close> either complete before the finalization or be rejected with the
  already-finalized error. In the order \<^verbatim>\<open>Discard\<close>, \<^verbatim>\<open>Commit\<close> both finalize: the
  session is aborted and ended, then committed and ended again, and \<^verbatim>\<open>Commit\<close>
  returns no error. In the order \<^verbatim>\<open>Discard\<close>, \<^verbatim>\<open>Put\<close> the \<^verbatim>\<open>Put\<close> comes after the
  finalization and is neither rejected nor kept from the store. In the order
  \<^verbatim>\<open>Commit\<close>, \<^verbatim>\<open>Put\<close> the \<^verbatim>\<open>Put\<close> is rejected, with \<^verbatim>\<open>ErrClosed\<close>.
\<close>

theorem serial_orders_finalize_twice_and_accept_Put:
  "calls (snd (run env_ok [Discard_op (Caller 1), Commit_op (Caller 2)] (t0, w0))) =
     [AbortTransaction_call 5 (WithTimeout (Caller 1) 30),
      EndSession_call 5 (WithTimeout (Caller 1) 10),
      CommitTransaction_call 5 (WithTimeout (Caller 2) 30),
      EndSession_call 5 (WithTimeout (Caller 2) 10)]
   \<and> length (filter (is_EndSession 5)
        (calls (snd (run env_ok [Discard_op (Caller 1), Commit_op (Caller 2)] (t0, w0))))) = 2
   \<and> fst (Commit env_ok (Caller 2) (fst (run env_ok [Discard_op (Caller 1)] (t0, w0)))
        (snd (run env_ok [Discard_op (Caller 1)] (t0, w0)))) = None
   \<and> Put env_ok (Caller 2) ''a'' [49] (fst (run env_ok [Discard_op (Caller 1)] (t0, w0)))
        (snd (run env_ok [Discard_op (Caller 1)] (t0, w0))) =
       (None, t0,
        \<lparr>calls = [AbortTransaction_call 5 (WithTimeout (Caller 1) 30),
                  EndSession_call 5 (WithTimeout (Caller 1) 10),
                  put_call (Caller 2) ''a'' [49]], logged = []\<rparr>)
   \<and> fst (Put env_ok (Caller 2) ''a'' [49] (fst (run env_ok [Commit_op (Caller 1)] (t0, w0)))
        (snd (run env_ok [Commit_op (Caller 1)] (t0, w0)))) = Some ErrClosed"
  by (simp add: Commit_def Discard_def Put_def remote_def Errorf_log_def Let_def fixtures)

section \<open>Creation ignores the read-only flag\<close>

text \<open>
  C10. The \<^verbatim>\<open>readOnly\<close> argument of \<^verbatim>\<open>NewTransaction\<close> and of
  \<^verbatim>\<open>NewTransactionExtended\<close> has no effect: two calls that differ only in the flag
  (and, for \<^verbatim>\<open>NewTransaction\<close>, in the context, which is ignored as well) give the same
  wrapper or the same error and make the same remote calls, none of which carries the
  flag.
\<close>

theorem readOnly_has_no_effect:
  "newTransaction e store r1 w = newTransaction e store r2 w
   \<and> NewTransaction e store c1 r1 w = NewTransaction e store c2 r2 w
   \<and> NewTransactionExtended e store r1 w = NewTransactionExtended e store r2 w
   \<and> NewTransaction e store c1 r1 w = NewTransactionExtended e store r2 w"
  by (simp add: newTransaction_def NewTransaction_def NewTransactionExtended_def)

end
